theory Spec2Isabelle
  imports Complex_Main
begin

section \<open>Data model\<close>

text \<open>
  The program is a React front end (App, ImageUploader, ImageDisplay). Its handlers are
  embedded as functions over an explicit state record; what a handler reads from the
  browser (decoded images, layout sizes, the two remote services) is passed in as an
  environment record.

  A JavaScript \<open>number\<close> is modelled as a \<^typ>\<open>real\<close>: the arithmetic of the
  handlers is read as exact arithmetic. Division is HOL's total division; it agrees with
  the exact quotient whenever the divisor is nonzero, and the theorems that depend on a
  quotient carry the nonzero hypotheses. A JavaScript string is a \<^typ>\<open>string\<close>.
\<close>

text \<open>types.ts: FileInfo (field \<open>size\<close> is written \<open>size_bytes\<close>) and PinPosition
  (fields \<open>x\<close>, \<open>y\<close> are written \<open>pin_x\<close>, \<open>pin_y\<close>).\<close>

record FileInfo =
  name :: string
  type :: string
  size_bytes :: real
  base64 :: string
  width :: "real option"
  height :: "real option"

record PinPosition =
  pin_x :: real
  pin_y :: real

text \<open>App.tsx: interface ExtractedVehicle (fields \<open>width\<close>, \<open>height\<close> are written
  \<open>vehicleWidth\<close>, \<open>vehicleHeight\<close>).\<close>

record ExtractedVehicle =
  src :: string
  vehicleWidth :: real
  vehicleHeight :: real

text \<open>A decoded image (\<open>new Image()\<close> after its \<open>onload\<close>) and a laid-out DOM element.\<close>

record Image =
  image_src :: string
  naturalWidth :: real
  naturalHeight :: real

record Element =
  offsetWidth :: real
  offsetHeight :: real

text \<open>The state of the App component: one field per \<open>useState\<close> cell.\<close>

record AppState =
  subjectVehicle :: "FileInfo option"
  backgroundScene :: "FileInfo option"
  isExtracting :: bool
  extractedVehicle :: "ExtractedVehicle option"
  vehiclePosition :: "PinPosition option"
  vehicleScale :: real
  generatedImage :: "string option"
  isLoading :: bool
  error :: "string option"

text \<open>A 2D canvas: its size and the \<open>drawImage\<close> calls made on its context, in order.
  \<open>DrawImage img dx dy\<close> is the three-argument call, \<open>DrawImageScaled img dx dy dw dh\<close>
  the five-argument call.\<close>

datatype DrawCall =
  DrawImage Image real real
| DrawImageScaled Image real real real real

record Canvas =
  canvas_width :: real
  canvas_height :: real
  drawCalls :: "DrawCall list"

text \<open>The destination rectangle of a \<open>drawImage\<close> call, as (left, top, right, bottom):
  the three-argument call draws the image at its natural size.\<close>

fun destRect :: "DrawCall \<Rightarrow> real \<times> real \<times> real \<times> real" where
  "destRect (DrawImage img dx dy) = (dx, dy, dx + naturalWidth img, dy + naturalHeight img)"
| "destRect (DrawImageScaled img dx dy dw dh) = (dx, dy, dx + dw, dy + dh)"

section \<open>The environment of the App component\<close>

text \<open>
  What the handlers of App read from outside the component:
  \<^item> \<open>canvasContext\<close>: whether \<open>canvas.getContext('2d')\<close> is non-null;
  \<^item> \<open>loadImage s\<close>: the image decoded from source \<open>s\<close>, or \<open>None\<close> when its
    \<open>onload\<close> never fires (the handler installs no \<open>onerror\<close>, so its
    \<open>Promise.all\<close> then never resolves);
  \<^item> \<open>renderedBackground\<close>: \<open>backgroundImageRef.current\<close>;
  \<^item> \<open>backgroundContainer\<close>: \<open>backgroundContainerRef.current\<close>;
  \<^item> \<open>nullMessage\<close>: the message of the TypeError raised when that ref is null;
  \<^item> \<open>toDataURL\<close>: the PNG encoding of a canvas;
  \<^item> \<open>extractVehicle\<close>, \<open>blendVehicleIntoScene\<close>: the two remote services,
    \<open>Inl\<close> the message of a rejection, \<open>Inr\<close> the image returned.
\<close>

record Env =
  canvasContext :: bool
  loadImage :: "string \<Rightarrow> Image option"
  renderedBackground :: "Element option"
  backgroundContainer :: "Element option"
  nullMessage :: string
  toDataURL :: "Canvas \<Rightarrow> string"
  extractVehicle :: "FileInfo \<Rightarrow> string + string"
  blendVehicleIntoScene :: "FileInfo \<Rightarrow> string + string"

section \<open>App.handleGenerate\<close>

text \<open>
  The outcome of one call: the component state afterwards; the composite, that is the
  canvas as it was when \<open>toDataURL\<close> encoded it, if the call got that far; the
  arguments of the calls made to the blend service; and whether the handler's promise
  settled.
\<close>

record GenerateResult =
  final :: AppState
  composite :: "Canvas option"
  blendCalls :: "FileInfo list"
  settled :: bool

text \<open>Lines 112-138: the position of the pin on the original image. \<open>rendered\<close> is
  (offsetWidth, offsetHeight) of the rendered background, \<open>original\<close> is
  (naturalWidth, naturalHeight) of the decoded one; the result is (finalX, finalY).\<close>

definition finalXY :: "PinPosition \<Rightarrow> real \<times> real \<Rightarrow> real \<times> real \<Rightarrow> real \<times> real" where
  "finalXY vp rendered original =
    (let (renderedWidth, renderedHeight) = rendered;
         (originalWidth, originalHeight) = original;
         originalAspectRatio = originalWidth / originalHeight;
         containerAspectRatio = renderedWidth / renderedHeight;
         (actualRenderedWidth, actualRenderedHeight) =
           (if originalAspectRatio > containerAspectRatio
            then (renderedWidth, renderedWidth / originalAspectRatio)
            else (renderedHeight * originalAspectRatio, renderedHeight));
         paddingX = (renderedWidth - actualRenderedWidth) / 2;
         paddingY = (renderedHeight - actualRenderedHeight) / 2;
         pinXOnImage = pin_x vp - paddingX;
         pinYOnImage = pin_y vp - paddingY;
         relativeX = pinXOnImage / actualRenderedWidth;
         relativeY = pinYOnImage / actualRenderedHeight;
         finalX = relativeX * originalWidth;
         finalY = relativeY * originalHeight
     in (finalX, finalY))"

text \<open>Lines 105-109 and 140-150: the canvas takes the background's natural size, the
  background is drawn at the origin, and the vehicle is drawn scaled around
  (finalX, finalY).\<close>

definition compose :: "Image \<Rightarrow> Image \<Rightarrow> real \<times> real \<Rightarrow> real \<Rightarrow> Canvas" where
  "compose bgImg vehicleImg fin scale =
    (let (finalX, finalY) = fin;
         vehicleDrawWidth = naturalWidth vehicleImg * scale;
         vehicleDrawHeight = naturalHeight vehicleImg * scale
     in \<lparr>canvas_width = naturalWidth bgImg,
         canvas_height = naturalHeight bgImg,
         drawCalls =
           [DrawImage bgImg 0 0,
            DrawImageScaled vehicleImg
              (finalX - vehicleDrawWidth / 2) (finalY - vehicleDrawHeight / 2)
              vehicleDrawWidth vehicleDrawHeight]\<rparr>)"

text \<open>Lines 152-160: the FileInfo handed to the blend service.\<close>

definition compositeFileInfo :: "Env \<Rightarrow> Canvas \<Rightarrow> FileInfo" where
  "compositeFileInfo env canvas =
    \<lparr>name = ''composite.png'', type = ''image/png'', size_bytes = 0,
     base64 = toDataURL env canvas,
     width = Some (canvas_width canvas), height = Some (canvas_height canvas)\<rparr>"

definition guardMessage :: string where
  "guardMessage = ''Please upload both images and place the vehicle on the scene.''"

definition generationError :: "string \<Rightarrow> string" where
  "generationError msg = ''An error occurred during generation: '' @ msg"

text \<open>The \<open>catch\<close> block followed by the \<open>finally\<close> block.\<close>

definition caught :: "AppState \<Rightarrow> string \<Rightarrow> AppState" where
  "caught st msg = st\<lparr>error := Some (generationError msg), isLoading := False\<rparr>"

text \<open>Lines 85-170: the body after the guard, for a vehicle \<open>ev\<close>, a background \<open>bg\<close>
  and a position \<open>vp\<close>.\<close>

definition generate ::
  "Env \<Rightarrow> AppState \<Rightarrow> ExtractedVehicle \<Rightarrow> FileInfo \<Rightarrow> PinPosition \<Rightarrow> GenerateResult" where
  "generate env st ev bg vp =
    (let st1 = st\<lparr>error := None, isLoading := True, generatedImage := None\<rparr> in
     if canvasContext env then
       (case (loadImage env (base64 bg), loadImage env (src ev)) of
          (Some bgImg, Some vehicleImg) \<Rightarrow>
            (case renderedBackground env of
               None \<Rightarrow>
                 \<lparr>final = caught st1 (nullMessage env), composite = None,
                  blendCalls = [], settled = True\<rparr>
             | Some renderedBg \<Rightarrow>
                 (let canvas =
                        compose bgImg vehicleImg
                          (finalXY vp (offsetWidth renderedBg, offsetHeight renderedBg)
                             (naturalWidth bgImg, naturalHeight bgImg))
                          (vehicleScale st);
                      info = compositeFileInfo env canvas
                  in (case blendVehicleIntoScene env info of
                        Inl msg \<Rightarrow>
                          \<lparr>final = caught st1 msg, composite = Some canvas,
                           blendCalls = [info], settled = True\<rparr>
                      | Inr result \<Rightarrow>
                          \<lparr>final = st1\<lparr>generatedImage := Some result, isLoading := False\<rparr>,
                           composite = Some canvas, blendCalls = [info], settled = True\<rparr>)))
        | _ \<Rightarrow> \<lparr>final = st1, composite = None, blendCalls = [], settled = False\<rparr>)
     else
       \<lparr>final = caught st1 ''Could not create canvas context.'', composite = None,
        blendCalls = [], settled = True\<rparr>)"

text \<open>Lines 79-83: the guard. An absent vehicle, a vehicle with an empty \<open>src\<close>, an
  absent background and an absent position are all falsy.\<close>

definition handleGenerate :: "Env \<Rightarrow> AppState \<Rightarrow> GenerateResult" where
  "handleGenerate env st =
    (case (extractedVehicle st, backgroundScene st, vehiclePosition st) of
       (Some ev, Some bg, Some vp) \<Rightarrow>
         (if src ev = []
          then \<lparr>final = st\<lparr>error := Some guardMessage\<rparr>, composite = None,
                blendCalls = [], settled = True\<rparr>
          else generate env st ev bg vp)
     | _ \<Rightarrow>
         \<lparr>final = st\<lparr>error := Some guardMessage\<rparr>, composite = None,
          blendCalls = [], settled = True\<rparr>)"

section \<open>App: the upload handlers and the drop handler\<close>

text \<open>JavaScript's \<open>a || b\<close> on an optional number: \<open>undefined\<close> and \<open>0\<close> are falsy.\<close>

definition orElse :: "real option \<Rightarrow> real \<Rightarrow> real" where
  "orElse a b = (case a of None \<Rightarrow> b | Some v \<Rightarrow> if v = 0 then b else v)"

text \<open>Line 46: \<open>bgImage?.offsetWidth || container?.offsetWidth || 512\<close>.\<close>

definition backgroundRenderWidth :: "Env \<Rightarrow> real" where
  "backgroundRenderWidth env =
    orElse (map_option offsetWidth (renderedBackground env))
      (orElse (map_option offsetWidth (backgroundContainer env)) 512)"

text \<open>Lines 37-49: the \<open>onload\<close> handler of the extracted vehicle's image.\<close>

definition vehicleLoaded :: "Env \<Rightarrow> string \<Rightarrow> Image \<Rightarrow> AppState \<Rightarrow> AppState" where
  "vehicleLoaded env resultSrc img st =
    (let st1 = st\<lparr>extractedVehicle :=
                 Some \<lparr>src = resultSrc, vehicleWidth = naturalWidth img,
                       vehicleHeight = naturalHeight img\<rparr>\<rparr>;
         baseScale = (backgroundRenderWidth env / 4) / naturalWidth img
     in st1\<lparr>vehicleScale := baseScale\<rparr>)"

text \<open>Lines 27-58. The \<open>finally\<close> block runs before the image's \<open>onload\<close>; when the
  image never loads only the \<open>finally\<close> block has run.\<close>

definition handleSubjectUpload :: "Env \<Rightarrow> FileInfo \<Rightarrow> AppState \<Rightarrow> AppState" where
  "handleSubjectUpload env fileInfo st =
    (let st1 = st\<lparr>subjectVehicle := Some fileInfo, extractedVehicle := None,
                  generatedImage := None, error := None, isExtracting := True\<rparr>
     in (case extractVehicle env fileInfo of
           Inl msg \<Rightarrow>
             st1\<lparr>error := Some (''Failed to extract vehicle: '' @ msg), isExtracting := False\<rparr>
         | Inr resultSrc \<Rightarrow>
             (let st2 = st1\<lparr>isExtracting := False\<rparr>
              in (case loadImage env resultSrc of
                    None \<Rightarrow> st2
                  | Some img \<Rightarrow> vehicleLoaded env resultSrc img st2))))"

text \<open>Lines 60-65.\<close>

definition handleBackgroundUpload :: "FileInfo \<Rightarrow> AppState \<Rightarrow> AppState" where
  "handleBackgroundUpload fileInfo st =
    st\<lparr>backgroundScene := Some fileInfo, vehiclePosition := None,
       generatedImage := None, error := None\<rparr>"

text \<open>Lines 67-77: a drop at client position \<open>(clientX, clientY)\<close> carrying the data
  \<open>vehicleId\<close>, on a container whose bounding rectangle starts at \<open>(rectLeft, rectTop)\<close>
  (\<open>None\<close> when the container ref is null).\<close>

definition handleVehicleDrop ::
  "(real \<times> real) option \<Rightarrow> string \<Rightarrow> real \<Rightarrow> real \<Rightarrow> AppState \<Rightarrow> AppState" where
  "handleVehicleDrop rect vehicleId clientX clientY st =
    (case rect of
       None \<Rightarrow> st
     | Some (rectLeft, rectTop) \<Rightarrow>
         if vehicleId \<noteq> ''extracted-vehicle'' then st
         else st\<lparr>vehiclePosition := Some \<lparr>pin_x = clientX - rectLeft, pin_y = clientY - rectTop\<rparr>\<rparr>)"

section \<open>ImageUploader.handleFile\<close>

text \<open>A browser File (fields \<open>name\<close>, \<open>type\<close>, \<open>size\<close>), and what the uploader reads
  from the browser: the data URL of a file (\<open>None\<close> when the reader's \<open>onload\<close> never
  fires) and the image decoded from it (\<open>None\<close> when the image's \<open>onload\<close> never
  fires).\<close>

record File =
  file_name :: string
  file_type :: string
  file_size :: real

record UploaderEnv =
  readAsDataURL :: "File \<Rightarrow> string option"
  decodeImage :: "string \<Rightarrow> Image option"

text \<open>\<open>String.prototype.startsWith\<close>.\<close>

definition startsWith :: "string \<Rightarrow> string \<Rightarrow> bool" where
  "startsWith s p = (take (length p) s = p)"

text \<open>Lines 15-36 of ImageUploader. The argument is \<open>None\<close> for a null or undefined
  file; the result lists the arguments of the calls made to \<open>onImageUpload\<close>.\<close>

definition handleFile :: "UploaderEnv \<Rightarrow> File option \<Rightarrow> FileInfo list" where
  "handleFile env file =
    (case file of
       None \<Rightarrow> []
     | Some f \<Rightarrow>
         if startsWith (file_type f) ''image/'' then
           (case readAsDataURL env f of
              None \<Rightarrow> []
            | Some b64 \<Rightarrow>
                (case decodeImage env b64 of
                   None \<Rightarrow> []
                 | Some img \<Rightarrow>
                     [\<lparr>name = file_name f, type = file_type f, size_bytes = file_size f,
                       base64 = b64, width = Some (naturalWidth img),
                       height = Some (naturalHeight img)\<rparr>]))
         else [])"

text \<open>The uploader inside its parent: the parent's state after the calls that
  \<open>handleFile\<close> makes to the parent's \<open>onImageUpload\<close> handler.\<close>

definition upload ::
  "(FileInfo \<Rightarrow> 's \<Rightarrow> 's) \<Rightarrow> UploaderEnv \<Rightarrow> File option \<Rightarrow> 's \<Rightarrow> 's" where
  "upload onImageUpload env file st = fold onImageUpload (handleFile env file) st"

section \<open>ImageDisplay: the overlay\<close>

text \<open>Lines 441-448 of ImageDisplay, with the four local constants gathered in a
  record: the scale and the rotation of the overlay at a relative height.\<close>

record DepthConstants =
  minScale :: real
  maxScale :: real
  maxRotation :: real
  minRotation :: real

definition depthHint :: "DepthConstants \<Rightarrow> real \<Rightarrow> real \<times> real" where
  "depthHint k relativeY =
    (let scale = minScale k + (maxScale k - minScale k) * min (max relativeY 0) 1;
         rotation = maxRotation k - (maxRotation k - minRotation k) * relativeY
     in (scale, rotation))"

text \<open>The values the source gives the four constants.\<close>

definition sourceConstants :: DepthConstants where
  "sourceConstants = \<lparr>minScale = 2 / 10, maxScale = 12 / 10, maxRotation = 75, minRotation = 20\<rparr>"

definition estimateDepth :: "real \<Rightarrow> real \<times> real" where
  "estimateDepth relativeY = depthHint sourceConstants relativeY"

text \<open>The props the overlay depends on, and the overlay's style: hidden, or
  \<open>Overlay left top width height rotation scale\<close>.\<close>

record ImageDisplayProps =
  pinPosition :: "PinPosition option"
  isInteractive :: bool
  overlayDimensions :: "(real \<times> real) option"
  showOverlay :: "bool option"

datatype OverlayStyle =
  DisplayNone
| Overlay real real real real real real

text \<open>Lines 435-462 of ImageDisplay; \<open>imgDims\<close> is (width, height).\<close>

definition overlayStyle ::
  "DepthConstants \<Rightarrow> ImageDisplayProps \<Rightarrow> real \<times> real \<Rightarrow> OverlayStyle" where
  "overlayStyle k props imgDims =
    (case (showOverlay props, pinPosition props, overlayDimensions props) of
       (Some True, Some pin, Some (overlayWidth, overlayHeight)) \<Rightarrow>
         if fst imgDims > 0 \<and> isInteractive props then
           (let aspectRatio = overlayWidth / overlayHeight;
                baseWidth = fst imgDims * (25 / 100);
                baseHeight = baseWidth / aspectRatio;
                relativeY = pin_y pin / snd imgDims;
                (scale, rotation) = depthHint k relativeY
            in Overlay (pin_x pin) (pin_y pin) baseWidth baseHeight rotation scale)
         else DisplayNone
     | _ \<Rightarrow> DisplayNone)"

section \<open>The composite and the overlay side by side\<close>

text \<open>One moment of a placement session: the overlay style ImageDisplay computes from
  its constants, its props and its image size, next to the canvas that
  \<open>handleGenerate\<close> draws from the App state.\<close>

definition sessionFrame ::
  "DepthConstants \<Rightarrow> ImageDisplayProps \<Rightarrow> real \<times> real \<Rightarrow> Env \<Rightarrow> AppState
     \<Rightarrow> OverlayStyle \<times> Canvas option" where
  "sessionFrame k props imgDims env st =
    (overlayStyle k props imgDims, composite (handleGenerate env st))"

section \<open>The operations as the specification words them\<close>

text \<open>The specification's \<open>toNativeSpace(point, renderBox, nativeWidth, nativeHeight)\<close>,
  steps 1 to 6 of its section 4.1, with the render box given as (boxWidth, boxHeight).\<close>

definition toNativeSpace_spec ::
  "real \<times> real \<Rightarrow> real \<times> real \<Rightarrow> real \<Rightarrow> real \<Rightarrow> real \<times> real" where
  "toNativeSpace_spec point box nativeWidth nativeHeight =
    (let boxWidth = fst box;
         boxHeight = snd box;
         nativeAspect = nativeWidth / nativeHeight;
         boxAspect = boxWidth / boxHeight;
         renderedWidth = (if nativeAspect > boxAspect then boxWidth else boxHeight * nativeAspect);
         renderedHeight = (if nativeAspect > boxAspect then boxWidth / nativeAspect else boxHeight);
         paddingX = (boxWidth - renderedWidth) / 2;
         paddingY = (boxHeight - renderedHeight) / 2;
         imgX = fst point - paddingX;
         imgY = snd point - paddingY;
         relX = imgX / renderedWidth;
         relY = imgY / renderedHeight
     in (relX * nativeWidth, relY * nativeHeight))"

text \<open>The specification's \<open>estimateDepth\<close>, section 4.2: \<open>relativeY\<close> is clamped to
  [0, 1] and the clamped value is used for the scale and for the rotation.\<close>

definition estimateDepth_spec :: "real \<Rightarrow> real \<times> real" where
  "estimateDepth_spec relativeY =
    (let clamped = min (max relativeY 0) 1
     in (2 / 10 + (12 / 10 - 2 / 10) * clamped, 75 - (75 - 20) * clamped))"

section \<open>Concrete inputs\<close>

text \<open>A 1000 x 500 background, a 200 x 100 vehicle cut-out, and an environment in which
  both decode, the background is laid out in a 400 x 400 box, and both services answer.\<close>

definition sampleBackground :: FileInfo where
  "sampleBackground =
    \<lparr>name = ''scene.png'', type = ''image/png'', size_bytes = 4096, base64 = ''scene'',
     width = Some 1000, height = Some 500\<rparr>"

definition sampleSubject :: FileInfo where
  "sampleSubject =
    \<lparr>name = ''car.png'', type = ''image/png'', size_bytes = 2048, base64 = ''car'',
     width = Some 640, height = Some 480\<rparr>"

definition sampleVehicle :: ExtractedVehicle where
  "sampleVehicle = \<lparr>src = ''cutout'', vehicleWidth = 200, vehicleHeight = 100\<rparr>"

definition sampleLoad :: "string \<Rightarrow> Image option" where
  "sampleLoad s =
    (if s = ''scene'' then Some \<lparr>image_src = s, naturalWidth = 1000, naturalHeight = 500\<rparr>
     else if s = ''cutout'' then Some \<lparr>image_src = s, naturalWidth = 200, naturalHeight = 100\<rparr>
     else None)"

definition sampleEnv :: Env where
  "sampleEnv =
    \<lparr>canvasContext = True,
     loadImage = sampleLoad,
     renderedBackground = Some \<lparr>offsetWidth = 400, offsetHeight = 400\<rparr>,
     backgroundContainer = Some \<lparr>offsetWidth = 400, offsetHeight = 400\<rparr>,
     nullMessage = ''renderedBg is null'',
     toDataURL = (\<lambda>c. ''png''),
     extractVehicle = (\<lambda>f. Inr ''cutout''),
     blendVehicleIntoScene = (\<lambda>f. Inr ''blended'')\<rparr>"

text \<open>The same environment with the background laid out in an 800 x 800 box.\<close>

definition sampleEnvLarge :: Env where
  "sampleEnvLarge =
    sampleEnv\<lparr>renderedBackground := Some \<lparr>offsetWidth = 800, offsetHeight = 800\<rparr>\<rparr>"

text \<open>The environment before the composition view is mounted (the subject uploaded
  first): neither the rendered background nor its container exists. And the environment
  in which only the container is laid out, 600 wide.\<close>

definition sampleEnvUnmounted :: Env where
  "sampleEnvUnmounted = sampleEnv\<lparr>renderedBackground := None, backgroundContainer := None\<rparr>"

definition sampleEnvContainerOnly :: Env where
  "sampleEnvContainerOnly =
    sampleEnv\<lparr>renderedBackground := None,
              backgroundContainer := Some \<lparr>offsetWidth = 600, offsetHeight = 300\<rparr>\<rparr>"

text \<open>The initial state of App, and three states reached from it: both images present
  with the vehicle dropped at (200, 100); both images present and nothing dropped;
  a position but no extracted vehicle.\<close>

definition initialState :: AppState where
  "initialState =
    \<lparr>subjectVehicle = None, backgroundScene = None, isExtracting = False,
     extractedVehicle = None, vehiclePosition = None, vehicleScale = 1,
     generatedImage = None, isLoading = False, error = None\<rparr>"

definition noAnchorState :: AppState where
  "noAnchorState =
    initialState\<lparr>subjectVehicle := Some sampleSubject, backgroundScene := Some sampleBackground,
                 extractedVehicle := Some sampleVehicle\<rparr>"

definition placedState :: AppState where
  "placedState = noAnchorState\<lparr>vehiclePosition := Some \<lparr>pin_x = 200, pin_y = 100\<rparr>\<rparr>"

definition noForegroundState :: AppState where
  "noForegroundState = placedState\<lparr>extractedVehicle := None\<rparr>"

definition textFile :: File where
  "textFile = \<lparr>file_name = ''notes.txt'', file_type = ''text/plain'', file_size = 12\<rparr>"

definition imageFile :: File where
  "imageFile = \<lparr>file_name = ''scene'', file_type = ''image/png'', file_size = 4096\<rparr>"

definition sampleUploaderEnv :: UploaderEnv where
  "sampleUploaderEnv = \<lparr>readAsDataURL = (\<lambda>f. Some (file_name f)), decodeImage = sampleLoad\<rparr>"

text \<open>A second placement: the same two images, the background laid out at 800 x 800 and
  the vehicle dropped at (400, 200); other tuning constants for the overlay; and the props
  of an interactive ImageDisplay showing its overlay at a pin.\<close>

definition placedStateLarge :: AppState where
  "placedStateLarge =
    placedState\<lparr>vehiclePosition := Some \<lparr>pin_x = 400, pin_y = 200\<rparr>,
                generatedImage := Some ''earlier''\<rparr>"

definition otherConstants :: DepthConstants where
  "otherConstants = \<lparr>minScale = 1, maxScale = 2, maxRotation = 60, minRotation = 10\<rparr>"

definition sampleProps :: ImageDisplayProps where
  "sampleProps =
    \<lparr>pinPosition = Some \<lparr>pin_x = 200, pin_y = 100\<rparr>, isInteractive = True,
     overlayDimensions = Some (200, 100), showOverlay = Some True\<rparr>"

section \<open>Facts shared by the proofs\<close>

lemmas sample_defs =
  placedState_def placedStateLarge_def noAnchorState_def noForegroundState_def initialState_def
  sampleEnv_def sampleEnvLarge_def sampleLoad_def sampleBackground_def sampleVehicle_def
  sampleSubject_def

text \<open>A call to \<open>handleGenerate\<close> that produces a composite has passed the guard,
  found a canvas context, decoded both images and found the rendered background; the
  composite is \<open>compose\<close> at the mapped position. Conversely such a call produces it.\<close>

lemma handleGenerate_composite:
  assumes "composite (handleGenerate env st) = Some c"
  obtains ev bg vp bgImg vehicleImg renderedBg where
    "extractedVehicle st = Some ev" "backgroundScene st = Some bg"
    "vehiclePosition st = Some vp" "src ev \<noteq> []" "canvasContext env"
    "loadImage env (base64 bg) = Some bgImg" "loadImage env (src ev) = Some vehicleImg"
    "renderedBackground env = Some renderedBg"
    "c = compose bgImg vehicleImg
           (finalXY vp (offsetWidth renderedBg, offsetHeight renderedBg)
              (naturalWidth bgImg, naturalHeight bgImg))
           (vehicleScale st)"
  using assms
  by (auto simp: handleGenerate_def generate_def Let_def
      split: if_splits option.splits sum.splits)

lemma handleGenerate_reaches_compose:
  assumes "extractedVehicle st = Some ev" "backgroundScene st = Some bg"
    "vehiclePosition st = Some vp" "src ev \<noteq> []" "canvasContext env"
    "loadImage env (base64 bg) = Some bgImg" "loadImage env (src ev) = Some vehicleImg"
    "renderedBackground env = Some renderedBg"
  shows "composite (handleGenerate env st) =
      Some (compose bgImg vehicleImg
           (finalXY vp (offsetWidth renderedBg, offsetHeight renderedBg)
              (naturalWidth bgImg, naturalHeight bgImg))
           (vehicleScale st))"
  using assms
  by (simp add: handleGenerate_def generate_def Let_def split: sum.splits)

lemma compose_size:
  "canvas_width (compose bgImg vehicleImg anchor s) = naturalWidth bgImg \<and>
   canvas_height (compose bgImg vehicleImg anchor s) = naturalHeight bgImg"
  by (cases anchor) (simp add: compose_def Let_def)

lemma sample_composite:
  "composite (handleGenerate sampleEnv placedState) =
     Some (compose \<lparr>image_src = ''scene'', naturalWidth = 1000, naturalHeight = 500\<rparr>
             \<lparr>image_src = ''cutout'', naturalWidth = 200, naturalHeight = 100\<rparr> (500, 0) 1)"
  by (simp add: handleGenerate_def generate_def sample_defs finalXY_def
      compositeFileInfo_def Let_def)

lemma backgroundRenderWidth_rendered:
  "renderedBackground env = Some el \<Longrightarrow> offsetWidth el \<noteq> 0 \<Longrightarrow>
   backgroundRenderWidth env = offsetWidth el"
  by (simp add: backgroundRenderWidth_def orElse_def)

section \<open>Mapping the pin to the original image\<close>

text \<open>In the specification's scenario (a 1000 x 500 background laid out in a 400 x 400
  box) the pin at (200, 100) is mapped to (500, 0), the middle of the image's top edge,
  and not to (0, 0).\<close>

theorem finalXY_scenario_counterexample:
  "finalXY \<lparr>pin_x = 200, pin_y = 100\<rparr> (400, 400) (1000, 500) = (500, 0) \<and>
   finalXY \<lparr>pin_x = 200, pin_y = 100\<rparr> (400, 400) (1000, 500) \<noteq> (0, 0)"
  by (simp add: finalXY_def)

text \<open>
  C1, as amended. For nonzero sizes the position computed by \<open>handleGenerate\<close> is the
  specification's contain-fit mapping: the rendered size is chosen by comparing the two
  aspect ratios, the padding is half of what the box has left over, and the pin minus
  the padding is divided by the rendered size and multiplied by the native size, with
  no clamping. In the scenario the pin at (200, 100) maps to (500, 0); the image's
  top-left corner, the pin at (0, 100), maps to (0, 0); and a pin in the padding, at
  (200, 50), maps outside the image, to a negative ordinate.
\<close>

theorem finalXY_contain_fit:
  "(nw \<noteq> 0 \<and> nh \<noteq> 0 \<and> bw \<noteq> 0 \<and> bh \<noteq> 0 \<longrightarrow>
      finalXY vp (bw, bh) (nw, nh) = toNativeSpace_spec (pin_x vp, pin_y vp) (bw, bh) nw nh) \<and>
   finalXY \<lparr>pin_x = 200, pin_y = 100\<rparr> (400, 400) (1000, 500) = (500, 0) \<and>
   finalXY \<lparr>pin_x = 0, pin_y = 100\<rparr> (400, 400) (1000, 500) = (0, 0) \<and>
   finalXY \<lparr>pin_x = 200, pin_y = 50\<rparr> (400, 400) (1000, 500) = (500, - 125)"
  by (simp add: finalXY_def toNativeSpace_spec_def Let_def)

theorem finalXY_contain_fit_witness:
  "(1000::real) \<noteq> 0 \<and> (500::real) \<noteq> 0 \<and> (400::real) \<noteq> 0 \<and>
   finalXY \<lparr>pin_x = 300, pin_y = 150\<rparr> (400, 400) (1000, 500) =
     toNativeSpace_spec (300, 150) (400, 400) 1000 500 \<and>
   toNativeSpace_spec (300, 150) (400, 400) 1000 500 = (750, 125)"
proof -
  have "toNativeSpace_spec (300, 150) (400, 400) 1000 500 = (750, 125)"
    by (simp add: toNativeSpace_spec_def Let_def)
  with finalXY_contain_fit [of 1000 500 400 400 "\<lparr>pin_x = 300, pin_y = 150\<rparr>"]
  show ?thesis by simp
qed

text \<open>
  C6. For nonzero native and box sizes, the centre of the render box is mapped to the
  centre of the original image (exactly, the arithmetic being read over the reals).
\<close>

theorem finalXY_centre:
  assumes "nw \<noteq> 0" "nh \<noteq> 0" "bw \<noteq> 0" "bh \<noteq> 0"
  shows "finalXY \<lparr>pin_x = bw / 2, pin_y = bh / 2\<rparr> (bw, bh) (nw, nh) = (nw / 2, nh / 2)"
  using assms by (simp add: finalXY_def Let_def field_simps)

theorem finalXY_centre_witness:
  "(1000::real) \<noteq> 0 \<and> (500::real) \<noteq> 0 \<and> (400::real) \<noteq> 0 \<and>
   finalXY \<lparr>pin_x = 200, pin_y = 200\<rparr> (400, 400) (1000, 500) = (500, 250) \<and>
   finalXY \<lparr>pin_x = 200, pin_y = 200\<rparr> (400, 400) (500, 1000) = (250, 500)"
  using finalXY_centre [of 1000 500 400 400] finalXY_centre [of 500 1000 400 400] by simp

section \<open>The composite\<close>

text \<open>
  C2. For every native anchor (fx, fy), foreground image and scale s, \<open>compose\<close> draws
  the background at the origin and then the foreground with draw size
  (naturalWidth * s, naturalHeight * s) and top-left corner
  (fx - naturalWidth * s / 2, fy - naturalHeight * s / 2), that is, centred on the anchor.
  With the anchor (500, 250), a 200 x 100 foreground and s = 1 the foreground covers the
  rectangle from (400, 200) to (600, 300).
\<close>

theorem compose_vehicle_centred:
  "drawCalls (compose bgImg vehicleImg (fx, fy) s) =
     [DrawImage bgImg 0 0,
      DrawImageScaled vehicleImg
        (fx - naturalWidth vehicleImg * s / 2) (fy - naturalHeight vehicleImg * s / 2)
        (naturalWidth vehicleImg * s) (naturalHeight vehicleImg * s)] \<and>
   destRect (last (drawCalls
      (compose bgImg \<lparr>image_src = v, naturalWidth = 200, naturalHeight = 100\<rparr> (500, 250) 1))) =
     (400, 200, 600, 300)"
  by (simp add: compose_def Let_def)

text \<open>
  C3. The canvas that \<open>compose\<close> returns has the background's natural width and
  height, whatever the anchor and the scale; and whenever \<open>handleGenerate\<close> produces
  a composite, its width and height are the natural width and height of the image
  decoded from the session's background.
\<close>

theorem composite_dimensions:
  "canvas_width (compose bgImg vehicleImg anchor s) = naturalWidth bgImg \<and>
   canvas_height (compose bgImg vehicleImg anchor s) = naturalHeight bgImg \<and>
   (composite (handleGenerate env st) = Some c \<longrightarrow>
      (\<exists>bg bgImg. backgroundScene st = Some bg \<and> loadImage env (base64 bg) = Some bgImg \<and>
         canvas_width c = naturalWidth bgImg \<and> canvas_height c = naturalHeight bgImg))"
proof (intro conjI impI)
  assume "composite (handleGenerate env st) = Some c"
  then show "\<exists>bg bgImg. backgroundScene st = Some bg \<and> loadImage env (base64 bg) = Some bgImg \<and>
         canvas_width c = naturalWidth bgImg \<and> canvas_height c = naturalHeight bgImg"
    by (rule handleGenerate_composite) (simp add: compose_size)
qed (simp_all add: compose_size)

theorem composite_dimensions_witness:
  "composite (handleGenerate sampleEnv placedState) =
     Some (compose \<lparr>image_src = ''scene'', naturalWidth = 1000, naturalHeight = 500\<rparr>
             \<lparr>image_src = ''cutout'', naturalWidth = 200, naturalHeight = 100\<rparr> (500, 0) 1) \<and>
   (\<exists>bg bgImg. backgroundScene placedState = Some bg \<and>
      loadImage sampleEnv (base64 bg) = Some bgImg \<and>
      canvas_width (compose \<lparr>image_src = ''scene'', naturalWidth = 1000, naturalHeight = 500\<rparr>
             \<lparr>image_src = ''cutout'', naturalWidth = 200, naturalHeight = 100\<rparr> (500, 0) 1)
        = naturalWidth bgImg \<and> naturalWidth bgImg = 1000)"
proof -
  let ?c = "compose \<lparr>image_src = ''scene'', naturalWidth = 1000, naturalHeight = 500\<rparr>
             \<lparr>image_src = ''cutout'', naturalWidth = 200, naturalHeight = 100\<rparr> (500, 0) 1"
  from composite_dimensions [of _ _ _ _ sampleEnv placedState ?c] sample_composite
  obtain bg bgImg where
    "backgroundScene placedState = Some bg" "loadImage sampleEnv (base64 bg) = Some bgImg"
    "canvas_width ?c = naturalWidth bgImg"
    by blast
  moreover have "canvas_width ?c = 1000"
    by (simp add: compose_def)
  ultimately show ?thesis
    using sample_composite by auto
qed

text \<open>
  C5. Take two runs: each has its own overlay constants, ImageDisplay props and image
  size, its own environment and its own App state. If the two runs decode the same
  background and the same foreground, map their pins to the same position on the
  original image, have the same vehicle scale, and both reach the drawing step, then
  they produce the same composite. Nothing of the overlay, neither its four constants
  nor the style computed from them, enters the composite.
\<close>

theorem depth_hint_noninterference:
  assumes "backgroundScene st1 = Some bg1" "backgroundScene st2 = Some bg2"
    and "loadImage env1 (base64 bg1) = Some bgImg" "loadImage env2 (base64 bg2) = Some bgImg"
    and "extractedVehicle st1 = Some ev1" "extractedVehicle st2 = Some ev2"
    and "loadImage env1 (src ev1) = Some vehicleImg" "loadImage env2 (src ev2) = Some vehicleImg"
    and "vehiclePosition st1 = Some vp1" "vehiclePosition st2 = Some vp2"
    and "renderedBackground env1 = Some r1" "renderedBackground env2 = Some r2"
    and "finalXY vp1 (offsetWidth r1, offsetHeight r1) (naturalWidth bgImg, naturalHeight bgImg) =
         finalXY vp2 (offsetWidth r2, offsetHeight r2) (naturalWidth bgImg, naturalHeight bgImg)"
    and "vehicleScale st1 = vehicleScale st2"
    and "src ev1 \<noteq> []" "src ev2 \<noteq> []" "canvasContext env1" "canvasContext env2"
  shows "snd (sessionFrame k1 props1 dims1 env1 st1) = snd (sessionFrame k2 props2 dims2 env2 st2) \<and>
         snd (sessionFrame k1 props1 dims1 env1 st1) \<noteq> None"
proof -
  have "composite (handleGenerate env1 st1) =
      Some (compose bgImg vehicleImg
           (finalXY vp1 (offsetWidth r1, offsetHeight r1) (naturalWidth bgImg, naturalHeight bgImg))
           (vehicleScale st1))"
    using assms by (intro handleGenerate_reaches_compose) simp_all
  moreover have "composite (handleGenerate env2 st2) =
      Some (compose bgImg vehicleImg
           (finalXY vp2 (offsetWidth r2, offsetHeight r2) (naturalWidth bgImg, naturalHeight bgImg))
           (vehicleScale st2))"
    using assms by (intro handleGenerate_reaches_compose) simp_all
  ultimately show ?thesis
    using assms by (simp add: sessionFrame_def)
qed

theorem depth_hint_noninterference_witness:
  "snd (sessionFrame sourceConstants sampleProps (400, 400) sampleEnv placedState) =
   snd (sessionFrame otherConstants (sampleProps\<lparr>showOverlay := None\<rparr>) (800, 800)
          sampleEnvLarge placedStateLarge) \<and>
   snd (sessionFrame sourceConstants sampleProps (400, 400) sampleEnv placedState) \<noteq> None \<and>
   fst (sessionFrame sourceConstants sampleProps (400, 400) sampleEnv placedState) \<noteq>
   fst (sessionFrame otherConstants sampleProps (400, 400) sampleEnv placedState)"
proof -
  have "snd (sessionFrame sourceConstants sampleProps (400, 400) sampleEnv placedState) =
     snd (sessionFrame otherConstants (sampleProps\<lparr>showOverlay := None\<rparr>) (800, 800)
          sampleEnvLarge placedStateLarge) \<and>
     snd (sessionFrame sourceConstants sampleProps (400, 400) sampleEnv placedState) \<noteq> None"
    by (rule depth_hint_noninterference
        [where ?bg1.0 = sampleBackground and ?bg2.0 = sampleBackground
           and ?ev1.0 = sampleVehicle and ?ev2.0 = sampleVehicle
           and bgImg = "\<lparr>image_src = ''scene'', naturalWidth = 1000, naturalHeight = 500\<rparr>"
           and vehicleImg = "\<lparr>image_src = ''cutout'', naturalWidth = 200, naturalHeight = 100\<rparr>"
           and ?vp1.0 = "\<lparr>pin_x = 200, pin_y = 100\<rparr>" and ?vp2.0 = "\<lparr>pin_x = 400, pin_y = 200\<rparr>"
           and ?r1.0 = "\<lparr>offsetWidth = 400, offsetHeight = 400\<rparr>"
           and ?r2.0 = "\<lparr>offsetWidth = 800, offsetHeight = 800\<rparr>"])
      (simp_all add: sample_defs finalXY_def)
  moreover have
    "fst (sessionFrame sourceConstants sampleProps (400, 400) sampleEnv placedState) \<noteq>
     fst (sessionFrame otherConstants sampleProps (400, 400) sampleEnv placedState)"
    by (simp add: sessionFrame_def overlayStyle_def sampleProps_def depthHint_def
        sourceConstants_def otherConstants_def Let_def)
  ultimately show ?thesis by blast
qed

section \<open>The overlay's scale and rotation\<close>

text \<open>Between 0 and 1 the source's formulas and the specification's agree; the two
  end points and the monotonicity hold for the source as well.\<close>

lemma estimateDepth_unit_interval:
  "0 \<le> relativeY \<Longrightarrow> relativeY \<le> 1 \<Longrightarrow> estimateDepth relativeY = estimateDepth_spec relativeY"
  by (simp add: estimateDepth_def depthHint_def sourceConstants_def estimateDepth_spec_def
      Let_def)

lemma estimateDepth_end_points:
  "estimateDepth 0 = (2 / 10, 75) \<and> estimateDepth 1 = (12 / 10, 20)"
  by (simp add: estimateDepth_def depthHint_def sourceConstants_def Let_def)

lemma estimateDepth_monotone:
  assumes "a \<le> b"
  shows "fst (estimateDepth a) \<le> fst (estimateDepth b) \<and>
         snd (estimateDepth b) \<le> snd (estimateDepth a)"
proof -
  have "min (max a 0) 1 \<le> min (max b 0) 1"
    using assms by (simp add: min_def max_def)
  then show ?thesis
    using assms by (simp add: estimateDepth_def depthHint_def sourceConstants_def Let_def)
qed

text \<open>
  C4. The claim has the relative height clamped to [0, 1] for the scale and for the
  rotation. The source clamps it for the scale only: at relative height 2 (a pin at
  height 400 over an image 200 high) the scale is 1.2, as claimed, and the rotation is
  75 - 55 * 2 = - 35 where the claim has 20, below the constant the source names
  \<open>minRotation\<close>.
\<close>

theorem estimateDepth_rotation_unclamped:
  "estimateDepth 2 = (12 / 10, - 35) \<and> estimateDepth_spec 2 = (12 / 10, 20) \<and>
   overlayStyle sourceConstants (sampleProps\<lparr>pinPosition := Some \<lparr>pin_x = 200, pin_y = 400\<rparr>\<rparr>)
     (400, 200) = Overlay 200 400 100 50 (- 35) (12 / 10)"
  by (simp add: estimateDepth_def depthHint_def sourceConstants_def estimateDepth_spec_def
      overlayStyle_def sampleProps_def Let_def)

section \<open>The guard of handleGenerate\<close>

text \<open>With no position, and with a position but no extracted vehicle, \<open>handleGenerate\<close>
  leaves the same error behind: the two cases are not told apart.\<close>

theorem guard_errors_indistinguishable:
  "vehiclePosition noAnchorState = None \<and> extractedVehicle noAnchorState \<noteq> None \<and>
   vehiclePosition noForegroundState \<noteq> None \<and> extractedVehicle noForegroundState = None \<and>
   error (final (handleGenerate sampleEnv noAnchorState)) =
   error (final (handleGenerate sampleEnv noForegroundState))"
  by (simp add: handleGenerate_def sample_defs)

text \<open>
  C7, as amended. \<open>handleGenerate\<close> called with no position set, or with no extracted
  vehicle, sets the one message of its guard (``Please upload both images and place the
  vehicle on the scene.'') as the error and returns: the rest of the state is unchanged,
  no canvas is drawn and the blend service is not called.
\<close>

theorem handleGenerate_guard:
  assumes "vehiclePosition st = None \<or> extractedVehicle st = None"
  shows "handleGenerate env st =
    \<lparr>final = st\<lparr>error := Some guardMessage\<rparr>, composite = None, blendCalls = [],
     settled = True\<rparr>"
  using assms by (auto simp: handleGenerate_def split: option.splits)

theorem handleGenerate_guard_witness:
  "vehiclePosition noAnchorState = None \<and>
   handleGenerate sampleEnv noAnchorState =
     \<lparr>final = noAnchorState\<lparr>error := Some guardMessage\<rparr>, composite = None, blendCalls = [],
      settled = True\<rparr> \<and>
   extractedVehicle noForegroundState = None \<and>
   handleGenerate sampleEnv noForegroundState =
     \<lparr>final = noForegroundState\<lparr>error := Some guardMessage\<rparr>, composite = None,
      blendCalls = [], settled = True\<rparr>"
proof -
  have a: "vehiclePosition noAnchorState = None" by (simp add: sample_defs)
  have b: "extractedVehicle noForegroundState = None" by (simp add: sample_defs)
  show ?thesis
    using a b handleGenerate_guard [of noAnchorState sampleEnv]
      handleGenerate_guard [of noForegroundState sampleEnv] by simp
qed

section \<open>The upload handlers\<close>

text \<open>With the subject uploaded first, the vehicle's image loads while no background
  is rendered: the scale is then taken from the constant 512, and scale times the
  vehicle's width is 128. When the background is uploaded afterwards and rendered 400
  wide, the scale is unchanged, and 128 is not a quarter of 400.\<close>

theorem default_scale_unmounted_counterexample:
  "renderedBackground sampleEnvUnmounted = None \<and>
   extractedVehicle (handleSubjectUpload sampleEnvUnmounted sampleSubject initialState) =
     Some \<lparr>src = ''cutout'', vehicleWidth = 200, vehicleHeight = 100\<rparr> \<and>
   vehicleScale (handleSubjectUpload sampleEnvUnmounted sampleSubject initialState) * 200 = 128 \<and>
   renderedBackground sampleEnv = Some \<lparr>offsetWidth = 400, offsetHeight = 400\<rparr> \<and>
   vehicleScale (handleBackgroundUpload sampleBackground
      (handleSubjectUpload sampleEnvUnmounted sampleSubject initialState)) * 200 \<noteq> 400 / 4"
  by (simp add: handleSubjectUpload_def vehicleLoaded_def handleBackgroundUpload_def
      backgroundRenderWidth_def orElse_def sampleEnvUnmounted_def sampleEnv_def sampleLoad_def
      Let_def)

text \<open>
  C8, as amended. When the extraction service returns an image and that image loads
  with a nonzero natural width, \<open>handleSubjectUpload\<close> stores the extracted vehicle and
  sets the vehicle scale so that scale times the vehicle's natural width is a quarter
  of a reference width, read when the image loads: the width of the rendered background
  image if that element exists and its width is not zero; otherwise the width of the
  background's container if that element exists and its width is not zero; otherwise
  512.
\<close>

theorem default_scale_reference_width:
  assumes "extractVehicle env fileInfo = Inr resultSrc"
    and "loadImage env resultSrc = Some img"
    and "naturalWidth img \<noteq> 0"
  shows "extractedVehicle (handleSubjectUpload env fileInfo st) =
           Some \<lparr>src = resultSrc, vehicleWidth = naturalWidth img,
                 vehicleHeight = naturalHeight img\<rparr> \<and>
         (\<forall>el. renderedBackground env = Some el \<and> offsetWidth el \<noteq> 0 \<longrightarrow>
            vehicleScale (handleSubjectUpload env fileInfo st) * naturalWidth img =
              offsetWidth el / 4) \<and>
         (\<forall>el. map_option offsetWidth (renderedBackground env) \<in> {None, Some 0} \<and>
               backgroundContainer env = Some el \<and> offsetWidth el \<noteq> 0 \<longrightarrow>
            vehicleScale (handleSubjectUpload env fileInfo st) * naturalWidth img =
              offsetWidth el / 4) \<and>
         (map_option offsetWidth (renderedBackground env) \<in> {None, Some 0} \<and>
          map_option offsetWidth (backgroundContainer env) \<in> {None, Some 0} \<longrightarrow>
            vehicleScale (handleSubjectUpload env fileInfo st) * naturalWidth img = 512 / 4)"
proof -
  have scale: "vehicleScale (handleSubjectUpload env fileInfo st) * naturalWidth img =
      backgroundRenderWidth env / 4"
    using assms by (simp add: handleSubjectUpload_def vehicleLoaded_def Let_def)
  have stored: "extractedVehicle (handleSubjectUpload env fileInfo st) =
      Some \<lparr>src = resultSrc, vehicleWidth = naturalWidth img, vehicleHeight = naturalHeight img\<rparr>"
    using assms by (simp add: handleSubjectUpload_def vehicleLoaded_def Let_def)
  have image: "vehicleScale (handleSubjectUpload env fileInfo st) * naturalWidth img =
      offsetWidth el / 4"
    if "renderedBackground env = Some el \<and> offsetWidth el \<noteq> 0" for el
    unfolding scale using that by (simp add: backgroundRenderWidth_rendered)
  have container: "vehicleScale (handleSubjectUpload env fileInfo st) * naturalWidth img =
      offsetWidth el / 4"
    if "map_option offsetWidth (renderedBackground env) \<in> {None, Some 0} \<and>
        backgroundContainer env = Some el \<and> offsetWidth el \<noteq> 0" for el
    unfolding scale using that
    by (auto simp: backgroundRenderWidth_def orElse_def split: option.splits)
  have fallback: "vehicleScale (handleSubjectUpload env fileInfo st) * naturalWidth img =
      512 / 4"
    if "map_option offsetWidth (renderedBackground env) \<in> {None, Some 0} \<and>
        map_option offsetWidth (backgroundContainer env) \<in> {None, Some 0}"
    unfolding scale using that
    by (auto simp: backgroundRenderWidth_def orElse_def split: option.splits)
  show ?thesis
    by (intro conjI allI impI) (rule stored, (erule image container fallback)+)
qed

theorem default_scale_reference_width_witness:
  "vehicleScale (handleSubjectUpload sampleEnv sampleSubject initialState) * 200 = 400 / 4 \<and>
   vehicleScale (handleSubjectUpload sampleEnvContainerOnly sampleSubject initialState) * 200 =
     600 / 4 \<and>
   vehicleScale (handleSubjectUpload sampleEnvUnmounted sampleSubject initialState) * 200 =
     512 / 4"
proof -
  let ?img = "\<lparr>image_src = ''cutout'', naturalWidth = 200, naturalHeight = 100\<rparr>"
  have a: "extractVehicle sampleEnv sampleSubject = Inr ''cutout''"
    "extractVehicle sampleEnvContainerOnly sampleSubject = Inr ''cutout''"
    "extractVehicle sampleEnvUnmounted sampleSubject = Inr ''cutout''"
    by (simp_all add: sampleEnv_def sampleEnvContainerOnly_def sampleEnvUnmounted_def)
  have b: "loadImage sampleEnv ''cutout'' = Some ?img"
    "loadImage sampleEnvContainerOnly ''cutout'' = Some ?img"
    "loadImage sampleEnvUnmounted ''cutout'' = Some ?img"
    by (simp_all add: sampleEnv_def sampleEnvContainerOnly_def sampleEnvUnmounted_def
        sampleLoad_def)
  have n: "naturalWidth ?img \<noteq> 0" by simp
  have "vehicleScale (handleSubjectUpload sampleEnv sampleSubject initialState) * 200 = 400 / 4"
    using default_scale_reference_width [OF a(1) b(1) n, of initialState]
    by (simp add: sampleEnv_def)
  moreover have
    "vehicleScale (handleSubjectUpload sampleEnvContainerOnly sampleSubject initialState) * 200 =
       600 / 4"
    using default_scale_reference_width [OF a(2) b(2) n, of initialState]
    by (simp add: sampleEnvContainerOnly_def sampleEnv_def)
  moreover have
    "vehicleScale (handleSubjectUpload sampleEnvUnmounted sampleSubject initialState) * 200 =
       512 / 4"
    using default_scale_reference_width [OF a(3) b(3) n, of initialState]
    by (simp add: sampleEnvUnmounted_def sampleEnv_def)
  ultimately show ?thesis by simp
qed

text \<open>
  C9. In every state, \<open>handleBackgroundUpload\<close> clears the vehicle position and leaves
  the extracted vehicle and the vehicle scale as they were.
\<close>

theorem handleBackgroundUpload_frame:
  "vehiclePosition (handleBackgroundUpload fileInfo st) = None \<and>
   extractedVehicle (handleBackgroundUpload fileInfo st) = extractedVehicle st \<and>
   vehicleScale (handleBackgroundUpload fileInfo st) = vehicleScale st"
  by (simp add: handleBackgroundUpload_def)

section \<open>The uploader\<close>

text \<open>
  C10. \<open>handleFile\<close> calls \<open>onImageUpload\<close> only for a file whose type starts with
  ``image/''. For any other file it makes no call, so the parent's state, its error
  included, is what it was.
\<close>

theorem handleFile_ignores_non_images:
  "(handleFile env file \<noteq> [] \<longrightarrow> (\<exists>f. file = Some f \<and> startsWith (file_type f) ''image/'')) \<and>
   (\<not> startsWith (file_type f) ''image/'' \<longrightarrow>
      handleFile env (Some f) = [] \<and> upload onImageUpload env (Some f) st = st)"
  by (auto simp: handleFile_def upload_def split: option.splits if_splits)

theorem handleFile_ignores_non_images_witness:
  "\<not> startsWith (file_type textFile) ''image/'' \<and>
   handleFile sampleUploaderEnv (Some textFile) = [] \<and>
   upload handleBackgroundUpload sampleUploaderEnv (Some textFile) placedState = placedState \<and>
   handleFile sampleUploaderEnv (Some imageFile) \<noteq> [] \<and>
   startsWith (file_type imageFile) ''image/''"
proof -
  have a: "\<not> startsWith (file_type textFile) ''image/''"
    by (simp add: startsWith_def textFile_def)
  have b: "handleFile sampleUploaderEnv (Some imageFile) \<noteq> []"
    by (simp add: handleFile_def sampleUploaderEnv_def imageFile_def sampleLoad_def
        startsWith_def)
  from a b handleFile_ignores_non_images
    [of sampleUploaderEnv "Some textFile" textFile handleBackgroundUpload placedState]
    handleFile_ignores_non_images
    [of sampleUploaderEnv "Some imageFile" textFile handleBackgroundUpload placedState]
  show ?thesis by simp
qed

end
